theory Spec2Isabelle
  imports Complex_Main
begin

section \<open>Conventions\<close>

text \<open>
  Python floats are modelled as HOL reals: rounding, overflow and NaN are outside the
  model. A numpy array of floats is a \<open>real list\<close>. An exception is a value of
  \<open>exn\<close> on the left of a sum.

  The double-precision exponential \<open>np.exp\<close> is not the exponential of the reals: it
  underflows to 0 and its results round, so that \<open>1 - np.exp(x)\<close> can be exactly 1.
  The functions that call it therefore take it as a parameter \<open>np_exp\<close>, and a
  statement assumes of it only what it writes down.
\<close>

datatype exn = ValueError | EmptyInput | TypeError | KeyError

section \<open>risk.py\<close>

text \<open>\<open>ndarray.mean\<close> of a non-empty array.\<close>

definition array_mean :: "real list \<Rightarrow> real" where
  "array_mean xs = sum_list xs / real (length xs)"

text \<open>
  \<open>np.quantile(a, q)\<close> with the default linear interpolation: the virtual index
  \<open>(n - 1) * q\<close> in the sorted array, its two neighbours (the upper one clipped to the
  last index) and the linear blend between them. A \<open>q\<close> outside \<open>[0, 1]\<close> raises
  \<open>ValueError\<close>. Both callers in this repository guard against the empty array.
\<close>

definition quantile :: "real list \<Rightarrow> real \<Rightarrow> exn + real" where
  "quantile a q =
     (if q < 0 \<or> 1 < q then Inl ValueError
      else if a = [] then Inl EmptyInput
      else
        let s = sort a;
            n = length a;
            h = real (n - 1) * q;
            lo = nat \<lfloor>h\<rfloor>;
            hi = min (lo + 1) (n - 1);
            g = h - real lo
        in Inr (s ! lo + g * (s ! hi - s ! lo)))"

definition cvar :: "real list \<Rightarrow> real \<Rightarrow> exn + real" where
  "cvar samples alpha =
     (if samples = [] then Inr 0
      else
        case quantile samples alpha of
          Inl e \<Rightarrow> Inl e
        | Inr q \<Rightarrow>
            let tail = filter (\<lambda>x. q \<le> x) samples
            in if tail = [] then Inr q else Inr (array_mean tail))"

definition cvar_minus_mean :: "real list \<Rightarrow> real \<Rightarrow> exn + real" where
  "cvar_minus_mean samples alpha =
     (if samples = [] then Inr 0
      else
        case cvar samples alpha of
          Inl e \<Rightarrow> Inl e
        | Inr c \<Rightarrow> Inr (c - array_mean samples))"


text \<open>
  numpy's process-global generator is an explicit state: the stream of uniform draws on
  \<open>[0, 1)\<close> that it has yet to hand out. \<open>np.random.rand(n)\<close> returns the next
  \<open>n\<close> of them and advances the generator.
\<close>

type_synonym rng = "nat \<Rightarrow> real"

definition rand :: "nat \<Rightarrow> rng \<Rightarrow> real list \<times> rng" where
  "rand n g = (map g [0..<n], \<lambda>i. g (i + n))"

definition apply_shocks :: "real list \<Rightarrow> real \<Rightarrow> real \<Rightarrow> rng \<Rightarrow> real list \<times> rng" where
  "apply_shocks samples shock_prob shock_minutes g =
     (if shock_prob \<le> 0 \<or> shock_minutes \<le> 0 then (samples, g)
      else
        let (u, g') = rand (length samples) g;
            mask = map (\<lambda>x. x < shock_prob) u
        in (map (\<lambda>(x, m). if m then x + shock_minutes else x) (zip samples mask), g'))"

text \<open>
  What \<open>risk_with_shocks\<close> reads of its configuration: \<open>cfg.risk.alpha\<close>,
  \<open>cfg.risk.rho\<close> and the dictionary \<open>cfg.risk.shocks\<close>, looked up with
  \<open>.get(key, 0.0)\<close>. (The dataclass \<open>RiskConfig\<close> of config.py declares no
  \<open>shocks\<close> field; the function needs a configuration object that carries one.)
\<close>

record RiskConfig =
  alpha :: real
  rho :: real
  shocks :: "string \<rightharpoonup> real"

definition shocks_get :: "RiskConfig \<Rightarrow> string \<Rightarrow> real" where
  "shocks_get r key = (case shocks r key of None \<Rightarrow> 0 | Some v \<Rightarrow> v)"

definition risk_with_shocks ::
  "RiskConfig \<Rightarrow> real list \<Rightarrow> real list \<Rightarrow> rng \<Rightarrow> (exn + real) \<times> rng" where
  "risk_with_shocks r A_samples P_samples g =
     (let (A_shocked, g1) =
            apply_shocks A_samples (shocks_get r ''incident_prob'')
              (shocks_get r ''incident_minutes'') g;
          (P_shocked, g2) =
            apply_shocks P_samples (shocks_get r ''rail_disruption_prob'')
              (shocks_get r ''rail_disruption_minutes'') g1
      in (case cvar_minus_mean A_shocked (alpha r) of
            Inl e \<Rightarrow> Inl e
          | Inr deltaA \<Rightarrow>
              (case cvar_minus_mean P_shocked (alpha r) of
                 Inl e \<Rightarrow> Inl e
               | Inr deltaP \<Rightarrow> Inr (rho r * (deltaA + deltaP))),
          g2))"

section \<open>aggregators.py\<close>

record ProviderConfig =
  enable_google :: bool
  enable_openrouteservice :: bool
  enable_weather :: bool
  enable_events :: bool
  enable_mapbox :: bool
  google_api_key :: string
  ors_api_key :: string
  owm_api_key :: string
  ticketmaster_api_key :: string
  mapbox_api_key :: string

text \<open>
  The outcome of one routing provider call, after its retries: every exception inside
  \<open>google_drive_minutes\<close>, \<open>ors_drive_minutes\<close> and \<open>mapbox_drive_minutes\<close>
  is re-raised as \<open>ProviderError\<close>; otherwise the call returns \<open>None\<close> or a number
  of minutes.
\<close>

datatype reply = ProviderError | NoRoute | Minutes real

type_synonym coord = "real \<times> real"

type_synonym provider = "coord \<Rightarrow> coord \<Rightarrow> string \<Rightarrow> reply"

text \<open>
  One of the three guarded blocks of \<open>aggregate_drive_minutes\<close>: the provider is asked
  only when it is enabled and its key is a non-empty string; a \<open>ProviderError\<close> is
  swallowed; the value is appended under \<open>if v:\<close>, which is false for \<open>None\<close> and
  for \<open>0.0\<close>.
\<close>

definition provider_vals ::
  "bool \<Rightarrow> string \<Rightarrow> provider \<Rightarrow> coord \<Rightarrow> coord \<Rightarrow> real list" where
  "provider_vals enabled key call origin dest =
     (if enabled \<and> key \<noteq> [] then
        (case call origin dest key of
           ProviderError \<Rightarrow> []
         | NoRoute \<Rightarrow> []
         | Minutes v \<Rightarrow> if v \<noteq> 0 then [v] else [])
      else [])"

definition aggregate_drive_minutes ::
  "provider \<Rightarrow> provider \<Rightarrow> provider \<Rightarrow> coord \<Rightarrow> coord \<Rightarrow> ProviderConfig \<Rightarrow> exn + real option"
  where
  "aggregate_drive_minutes google_drive_minutes ors_drive_minutes mapbox_drive_minutes
       origin dest providers =
     (let vals =
            provider_vals (enable_google providers) (google_api_key providers)
              google_drive_minutes origin dest
            @ provider_vals (enable_openrouteservice providers) (ors_api_key providers)
                ors_drive_minutes origin dest
            @ provider_vals (enable_mapbox providers) (mapbox_api_key providers)
                mapbox_drive_minutes origin dest
      in if vals = [] then Inr None
         else (case quantile vals (3 / 4) of Inl e \<Rightarrow> Inl e | Inr v \<Rightarrow> Inr (Some v)))"

text \<open>
  The claim's reading of the same function, from the spec's words: every successful
  non-null estimate is collected (a zero included), and the 75th percentile of those is
  returned, or nothing when there is none.
\<close>

definition spec_vals :: "bool \<Rightarrow> string \<Rightarrow> provider \<Rightarrow> coord \<Rightarrow> coord \<Rightarrow> real list" where
  "spec_vals enabled key call origin dest =
     (if enabled \<and> key \<noteq> [] then
        (case call origin dest key of
           ProviderError \<Rightarrow> []
         | NoRoute \<Rightarrow> []
         | Minutes v \<Rightarrow> [v])
      else [])"

definition spec_aggregate_drive_minutes ::
  "provider \<Rightarrow> provider \<Rightarrow> provider \<Rightarrow> coord \<Rightarrow> coord \<Rightarrow> ProviderConfig \<Rightarrow> exn + real option"
  where
  "spec_aggregate_drive_minutes google_drive_minutes ors_drive_minutes mapbox_drive_minutes
       origin dest providers =
     (let vals =
            spec_vals (enable_google providers) (google_api_key providers)
              google_drive_minutes origin dest
            @ spec_vals (enable_openrouteservice providers) (ors_api_key providers)
                ors_drive_minutes origin dest
            @ spec_vals (enable_mapbox providers) (mapbox_api_key providers)
                mapbox_drive_minutes origin dest
      in if vals = [] then Inr None
         else (case quantile vals (3 / 4) of Inl e \<Rightarrow> Inl e | Inr v \<Rightarrow> Inr (Some v)))"

section \<open>travel.py\<close>

record TravelRV =
  mean :: real
  sd :: real

text \<open>
  The attributes of one road-network edge that the routing tier reads, each possibly
  absent from the edge's dictionary.
\<close>

record edge_data =
  edge_length :: "real option"
  speed_kph :: "real option"
  speed_kphs :: "real option"

text \<open>
  What lies outside the repository: the three routing providers, the road-network
  library and the geodesic distance. \<open>road_route\<close> stands for
  \<open>ox.graph_from_point\<close>, \<open>ox.nearest_nodes\<close> and \<open>nx.shortest_path\<close>: any
  exception they raise is \<open>Inl\<close>; otherwise the result holds, for each pair of
  consecutive nodes of the route, the dictionaries of the parallel edges between them
  (\<open>G.get_edge_data(u, v).values()\<close>). \<open>geodesic_miles\<close> is
  \<open>geodesic(a, b).miles\<close> on (lat, lon) pairs.
\<close>

record env =
  google_drive_minutes :: provider
  ors_drive_minutes :: provider
  mapbox_drive_minutes :: provider
  road_route :: "coord \<Rightarrow> coord \<Rightarrow> exn + edge_data list list"
  geodesic_miles :: "coord \<Rightarrow> coord \<Rightarrow> real"

text \<open>\<open>d.get("length", 0)\<close>, the key of the \<open>min\<close> over parallel edges.\<close>

definition length_key :: "edge_data \<Rightarrow> real" where
  "length_key d = (case edge_length d of None \<Rightarrow> 0 | Some l \<Rightarrow> l)"

text \<open>
  Python's \<open>min(xs, key=f)\<close>: the first element of least key; \<open>ValueError\<close> on an
  empty sequence.
\<close>

fun min_by :: "('a \<Rightarrow> real) \<Rightarrow> 'a list \<Rightarrow> exn + 'a" where
  "min_by f [] = Inl ValueError"
| "min_by f (x # xs) = Inr (foldl (\<lambda>best d. if f d < f best then d else best) x xs)"

definition edge_seconds :: "edge_data \<Rightarrow> real" where
  "edge_seconds d =
     (let length_m = (case edge_length d of None \<Rightarrow> 0 | Some l \<Rightarrow> l);
          speed0 = (case speed_kph d of
                      Some v \<Rightarrow> v
                    | None \<Rightarrow> (case speed_kphs d of Some v \<Rightarrow> v | None \<Rightarrow> 50));
          speed = (if speed0 \<le> 0 then 50 else speed0)
      in (length_m / 1000) / speed * 3600)"

text \<open>The loop over the route's steps, accumulating \<open>total_seconds\<close>.\<close>

fun route_seconds :: "edge_data list list \<Rightarrow> real \<Rightarrow> exn + real" where
  "route_seconds [] total_seconds = Inr total_seconds"
| "route_seconds (es # rest) total_seconds =
     (case min_by length_key es of
        Inl e \<Rightarrow> Inl e
      | Inr d \<Rightarrow> route_seconds rest (total_seconds + edge_seconds d))"

text \<open>The body of the \<open>try\<close> block of \<open>estimate_drive_time_minutes\<close>.\<close>

definition network_tier :: "env \<Rightarrow> coord \<Rightarrow> coord \<Rightarrow> exn + TravelRV" where
  "network_tier w origin dest =
     (case road_route w origin dest of
        Inl e \<Rightarrow> Inl e
      | Inr route \<Rightarrow>
          (case route_seconds route 0 of
             Inl e \<Rightarrow> Inl e
           | Inr total_seconds \<Rightarrow>
               let mean_min = total_seconds / 60
               in Inr \<lparr>mean = mean_min, sd = max 5 (0.25 * mean_min)\<rparr>))"

text \<open>The \<open>except Exception\<close> branch: the straight-line heuristic at 35 mph.\<close>

definition straight_line_tier :: "env \<Rightarrow> coord \<Rightarrow> coord \<Rightarrow> TravelRV" where
  "straight_line_tier w origin dest =
     (let miles = geodesic_miles w origin dest;
          mean_min = (miles / 35) * 60
      in \<lparr>mean = mean_min, sd = max 5 (0.30 * mean_min)\<rparr>)"

definition routing_or_heuristic :: "env \<Rightarrow> coord \<Rightarrow> coord \<Rightarrow> TravelRV" where
  "routing_or_heuristic w origin dest =
     (case network_tier w origin dest of
        Inr rv \<Rightarrow> rv
      | Inl e \<Rightarrow> straight_line_tier w origin dest)"

text \<open>
  \<open>estimate_drive_time_minutes(origin_lon, origin_lat, dest_lon, dest_lat, providers)\<close>;
  \<open>providers = None\<close> is the default. The provider tier is outside the \<open>try\<close>, so
  an exception of \<open>aggregate_drive_minutes\<close> would propagate.
\<close>

definition estimate_drive_time_minutes ::
  "env \<Rightarrow> real \<Rightarrow> real \<Rightarrow> real \<Rightarrow> real \<Rightarrow> ProviderConfig option \<Rightarrow> exn + TravelRV" where
  "estimate_drive_time_minutes w origin_lon origin_lat dest_lon dest_lat providers =
     (let origin = (origin_lat, origin_lon);
          dest = (dest_lat, dest_lon)
      in case providers of
           None \<Rightarrow> Inr (routing_or_heuristic w origin dest)
         | Some p \<Rightarrow>
             (case aggregate_drive_minutes (google_drive_minutes w) (ors_drive_minutes w)
                     (mapbox_drive_minutes w) origin dest p of
                Inl e \<Rightarrow> Inl e
              | Inr None \<Rightarrow> Inr (routing_or_heuristic w origin dest)
              | Inr (Some agg) \<Rightarrow> Inr \<lparr>mean = agg, sd = max 5 (0.25 * agg)\<rparr>))"

definition estimate_ride_time_minutes ::
  "env \<Rightarrow> real \<Rightarrow> real \<Rightarrow> real \<Rightarrow> real \<Rightarrow> ProviderConfig option \<Rightarrow> exn + TravelRV" where
  "estimate_ride_time_minutes w origin_lon origin_lat dest_lon dest_lat providers =
     (case estimate_drive_time_minutes w origin_lon origin_lat dest_lon dest_lat providers of
        Inl e \<Rightarrow> Inl e
      | Inr rv \<Rightarrow> Inr \<lparr>mean = mean rv * 1.05, sd = sd rv * 1.2\<rparr>)"

definition estimate_rail_time_minutes ::
  "env \<Rightarrow> real \<Rightarrow> real \<Rightarrow> real \<Rightarrow> real \<Rightarrow> TravelRV" where
  "estimate_rail_time_minutes w origin_lon origin_lat dest_lon dest_lat =
     (let miles = geodesic_miles w (origin_lat, origin_lon) (dest_lat, dest_lon);
          mean_min = (miles / 30) * 60
      in \<lparr>mean = mean_min, sd = max 5 (0.20 * mean_min)\<rparr>)"

section \<open>model.py\<close>

record ScheduleWindow =
  tmin :: string
  tmax :: string

record ScheduleConfig =
  t_depart_iso :: string
  curb_windows :: "string \<rightharpoonup> ScheduleWindow"

text \<open>
  A parsed timestamp: its instant in seconds and whether it carries a UTC offset.
  Subtracting an offset-aware from an offset-naive timestamp raises \<open>TypeError\<close>.
  \<open>dtparser.isoparse\<close> is a parameter: \<open>None\<close> where it raises.
\<close>

record datetime =
  seconds :: real
  aware :: bool

definition minutes_between :: "datetime \<Rightarrow> datetime \<Rightarrow> exn + real" where
  "minutes_between a b =
     (if aware a = aware b then Inr ((seconds a - seconds b) / 60) else Inl TypeError)"

text \<open>
  The \<open>try\<close> block of \<open>generalized_cost_delta\<close> that resolves the curb window of
  airport \<open>a\<close>, giving \<open>(t_depart_min, tmin_min, tmax_min)\<close>.
\<close>

definition parse_schedule ::
  "(string \<Rightarrow> datetime option) \<Rightarrow> ScheduleConfig \<Rightarrow> string \<Rightarrow> exn + real \<times> real \<times> real" where
  "parse_schedule isoparse sch a =
     (case isoparse (t_depart_iso sch) of
        None \<Rightarrow> Inl ValueError
      | Some t_depart \<Rightarrow>
     (case curb_windows sch a of
        None \<Rightarrow> Inl KeyError
      | Some win \<Rightarrow>
     (case isoparse (tmin win) of
        None \<Rightarrow> Inl ValueError
      | Some tmin_dt \<Rightarrow>
     (case isoparse (tmax win) of
        None \<Rightarrow> Inl ValueError
      | Some tmax_dt \<Rightarrow>
     (case minutes_between tmin_dt t_depart of
        Inl e \<Rightarrow> Inl e
      | Inr tmin_min \<Rightarrow>
     (case minutes_between tmax_dt t_depart of
        Inl e \<Rightarrow> Inl e
      | Inr tmax_min \<Rightarrow> Inr (0, tmin_min, tmax_min)))))))"

text \<open>The same block with its \<open>except Exception\<close> handler.\<close>

definition schedule_window ::
  "(string \<Rightarrow> datetime option) \<Rightarrow> ScheduleConfig \<Rightarrow> string \<Rightarrow> real \<times> real \<times> real" where
  "schedule_window isoparse sch a =
     (case parse_schedule isoparse sch a of
        Inl e \<Rightarrow> (0, 60, 120)
      | Inr win \<Rightarrow> win)"

section \<open>qsi.py\<close>

text \<open>The fields of \<open>Itinerary\<close> that the two functions below read.\<close>

record Itinerary =
  hub :: string
  layover_minutes :: real
  cancel_rate :: real
  delay_pos_mean :: real
  delay_var :: real
  price_mean :: real
  price_ancillary :: real
  price_rebates :: real
  seats_available :: int

record QSISegment =
  name :: string
  weight :: real
  beta_P :: real
  p_star :: real
  seats_threshold :: int

text \<open>
  The fields of \<open>QSIConfig\<close> read below. \<open>hub_risks\<close> is the raw dictionary of
  per-hub dictionaries, here restricted to its numeric entries.
\<close>

record QSIConfig =
  betaD :: real
  betaV :: real
  betaW :: real
  betaC :: real
  segments :: "QSISegment list"
  hub_risks :: "string \<rightharpoonup> (string \<rightharpoonup> real)"

text \<open>\<open>cfg.hub_risks.get(hub, {}).get(key, dflt)\<close>\<close>

definition hub_risk_get :: "QSIConfig \<Rightarrow> string \<Rightarrow> string \<Rightarrow> real \<Rightarrow> real" where
  "hub_risk_get cfg h key dflt =
     (case hub_risks cfg h of
        None \<Rightarrow> dflt
      | Some d \<Rightarrow> (case d key of None \<Rightarrow> dflt | Some v \<Rightarrow> v))"

text \<open>The local \<open>pi_mis\<close> of \<open>reliability_terms\<close>.\<close>

definition pi_mis :: "(real \<Rightarrow> real) \<Rightarrow> QSIConfig \<Rightarrow> real \<Rightarrow> string \<Rightarrow> real" where
  "pi_mis np_exp cfg Lk h =
     (let mct = hub_risk_get cfg h ''MCT'' 40
      in max 0 (min 1 (1 - np_exp (- (max (Lk - mct) 0) / 20))))"

definition reliability_terms ::
  "(real \<Rightarrow> real) \<Rightarrow> QSIConfig \<Rightarrow> Itinerary \<Rightarrow> real \<Rightarrow> string \<Rightarrow> real" where
  "reliability_terms np_exp cfg k Lk h =
     (let cancel = 1 - cancel_rate k;
          rel = cancel * (1 - pi_mis np_exp cfg Lk h)
                  * np_exp (- betaD cfg * max (delay_pos_mean k) 0
                            - betaV cfg * max (delay_var k) 0);
          Wx = hub_risk_get cfg h ''WxRisk'' 0.2;
          Cap = hub_risk_get cfg h ''CapacityRisk'' 0.3
      in rel * np_exp (- betaW cfg * Wx - betaC cfg * Cap))"

text \<open>
  \<open>next((f(seg) for seg in cfg.segments if seg.name == s), dflt)\<close>: the first segment of
  that name, or the default.
\<close>

definition segment_get :: "QSIConfig \<Rightarrow> string \<Rightarrow> (QSISegment \<Rightarrow> 'a) \<Rightarrow> 'a \<Rightarrow> 'a" where
  "segment_get cfg s f dflt =
     (case find (\<lambda>seg. name seg = s) (segments cfg) of
        None \<Rightarrow> dflt
      | Some seg \<Rightarrow> f seg)"

definition price_availability ::
  "(real \<Rightarrow> real) \<Rightarrow> QSIConfig \<Rightarrow> Itinerary \<Rightarrow> string \<Rightarrow> (string \<rightharpoonup> real) \<Rightarrow> real"
  where
  "price_availability np_exp cfg k s state =
     (let betaP = segment_get cfg s beta_P 0.01;
          p_star' = segment_get cfg s p_star 300;
          n_req = segment_get cfg s seats_threshold 2;
          eff = price_mean k * (case state ''price_multiplier'' of None \<Rightarrow> 1 | Some v \<Rightarrow> v)
                  + price_ancillary k - price_rebates k;
          avail = (if eff \<le> p_star' \<and> n_req \<le> seats_available k then 1 else 0.3)
      in avail * np_exp (- betaP * eff))"

text \<open>\<open>np.clip(x, lo, hi)\<close>, as the specification writes the misconnect probability.\<close>

definition clip :: "real \<Rightarrow> real \<Rightarrow> real \<Rightarrow> real" where
  "clip x lo hi = min hi (max lo x)"

section \<open>Concrete inputs\<close>

text \<open>Inputs at which the statements below are evaluated.\<close>

definition ten_minutes :: provider where
  "ten_minutes = (\<lambda>origin dest key. Minutes 10)"

definition zero_minutes :: provider where
  "zero_minutes = (\<lambda>origin dest key. Minutes 0)"

definition all_routing :: ProviderConfig where
  "all_routing = \<lparr>enable_google = True, enable_openrouteservice = True, enable_weather = False,
     enable_events = False, enable_mapbox = True, google_api_key = ''g'', ors_api_key = ''o'',
     owm_api_key = [], ticketmaster_api_key = [], mapbox_api_key = ''m''\<rparr>"

definition google_only :: ProviderConfig where
  "google_only = \<lparr>enable_google = True, enable_openrouteservice = False, enable_weather = False,
     enable_events = False, enable_mapbox = False, google_api_key = ''g'', ors_api_key = [],
     owm_api_key = [], ticketmaster_api_key = [], mapbox_api_key = []\<rparr>"

text \<open>A generator whose next draw is 0.1 and whose later draws are all 0.5.\<close>

definition first_draw_low :: rng where
  "first_draw_low = (\<lambda>i. if i = 0 then 1 / 10 else 1 / 2)"

text \<open>
  A risk configuration with \<open>alpha = 0.9\<close>, \<open>rho = 1\<close>, an incident shock of
  probability \<open>p\<close> and \<open>m\<close> minutes, and no rail-disruption shock.
\<close>

definition incident :: "real \<Rightarrow> real \<Rightarrow> RiskConfig" where
  "incident p m = \<lparr>alpha = 9 / 10, rho = 1,
     shocks = [''incident_prob'' \<mapsto> p, ''incident_minutes'' \<mapsto> m]\<rparr>"

text \<open>A world with no road network, where every two points are 35 miles apart.\<close>

definition no_routing :: env where
  "no_routing = \<lparr>google_drive_minutes = (\<lambda>origin dest key. ProviderError),
     ors_drive_minutes = (\<lambda>origin dest key. ProviderError),
     mapbox_drive_minutes = (\<lambda>origin dest key. ProviderError),
     road_route = (\<lambda>origin dest. Inl ValueError),
     geodesic_miles = (\<lambda>origin dest. 35)\<rparr>"

definition unparsable :: "string \<Rightarrow> datetime option" where
  "unparsable = (\<lambda>s. None)"

definition no_windows :: ScheduleConfig where
  "no_windows = \<lparr>t_depart_iso = ''soon'', curb_windows = Map.empty\<rparr>"

text \<open>
  The defaults of \<open>parse_qsi\<close> with one fare segment and no per-hub entry, and an
  itinerary with a 10-minute layover, a fare of 100 and no seat left.
\<close>

definition qsi_defaults :: QSIConfig where
  "qsi_defaults = \<lparr>betaD = 0.02, betaV = 0.01, betaW = 0.02, betaC = 0.02,
     segments = [\<lparr>name = ''leisure'', weight = 1, beta_P = 0.01, p_star = 300,
                  seats_threshold = 2\<rparr>],
     hub_risks = Map.empty\<rparr>"

definition sold_out :: Itinerary where
  "sold_out = \<lparr>hub = ''ORD'', layover_minutes = 10, cancel_rate = 0, delay_pos_mean = 0,
     delay_var = 0, price_mean = 100, price_ancillary = 0, price_rebates = 0,
     seats_available = 0\<rparr>"

text \<open>An itinerary with five seats left and a fare of 400, above the reference 300.\<close>

definition pricey :: Itinerary where
  "pricey = \<lparr>hub = ''ORD'', layover_minutes = 90, cancel_rate = 0, delay_pos_mean = 0,
     delay_var = 0, price_mean = 400, price_ancillary = 0, price_rebates = 0,
     seats_available = 5\<rparr>"

section \<open>Auxiliary facts\<close>

subsection \<open>Quantiles\<close>

lemma quantile_index_bounds:
  fixes q :: real
  assumes "0 < n" and "0 \<le> q" and "q \<le> 1"
  shows "nat \<lfloor>real (n - 1) * q\<rfloor> < n"
    and "min (nat \<lfloor>real (n - 1) * q\<rfloor> + 1) (n - 1) < n"
proof -
  have "real (n - 1) * q \<le> real (n - 1)"
    using assms by (simp add: mult_left_le)
  then have "\<lfloor>real (n - 1) * q\<rfloor> \<le> int (n - 1)"
    by (simp add: floor_le_iff)
  then have "nat \<lfloor>real (n - 1) * q\<rfloor> \<le> n - 1" by simp
  with assms(1) show "nat \<lfloor>real (n - 1) * q\<rfloor> < n" by simp
  from assms(1) show "min (nat \<lfloor>real (n - 1) * q\<rfloor> + 1) (n - 1) < n" by simp
qed

lemma quantile_returns:
  assumes "a \<noteq> []" and "0 \<le> q" and "q \<le> 1"
  shows "\<exists>v. quantile a q = Inr v"
  using assms by (simp add: quantile_def Let_def)

lemma quantile_constant:
  assumes ne: "a \<noteq> []" and q: "0 \<le> q" "q \<le> 1" and c: "\<forall>x \<in> set a. x = c"
  shows "quantile a q = Inr c"
proof -
  have n: "0 < length a" using ne by simp
  have at: "sort a ! i = c" if "i < length a" for i
  proof -
    have "sort a ! i \<in> set (sort a)" by (rule nth_mem) (simp add: that)
    then show ?thesis using c by simp
  qed
  note b = quantile_index_bounds [OF n q]
  show ?thesis using ne q at [OF b(1)] at [OF b(2)] by (simp add: quantile_def Let_def)
qed

lemma three_quarters: "(0::real) \<le> 3 / 4" "(3::real) / 4 \<le> 1"
  by simp_all

subsection \<open>Provider aggregation\<close>

lemma provider_vals_single:
  "provider_vals en key call origin dest = [v]
     \<longleftrightarrow> en \<and> key \<noteq> [] \<and> call origin dest key = Minutes v \<and> v \<noteq> 0"
proof (cases "call origin dest key")
  case ProviderError
  then show ?thesis by (simp add: provider_vals_def)
next
  case NoRoute
  then show ?thesis by (simp add: provider_vals_def)
next
  case (Minutes x)
  then show ?thesis by (cases "x = 0") (auto simp add: provider_vals_def)
qed

lemma provider_vals_shape:
  "provider_vals en key call origin dest = []
   \<or> (\<exists>v. provider_vals en key call origin dest = [v])"
proof (cases "call origin dest key")
  case ProviderError
  then show ?thesis by (simp add: provider_vals_def)
next
  case NoRoute
  then show ?thesis by (simp add: provider_vals_def)
next
  case (Minutes x)
  then show ?thesis by (cases "x = 0") (simp_all add: provider_vals_def)
qed

lemma aggregate_unfold:
  "aggregate_drive_minutes google ors mapbox origin dest p =
     (if provider_vals (enable_google p) (google_api_key p) google origin dest
           @ provider_vals (enable_openrouteservice p) (ors_api_key p) ors origin dest
           @ provider_vals (enable_mapbox p) (mapbox_api_key p) mapbox origin dest = []
      then Inr None
      else (case quantile
                   (provider_vals (enable_google p) (google_api_key p) google origin dest
                    @ provider_vals (enable_openrouteservice p) (ors_api_key p) ors origin dest
                    @ provider_vals (enable_mapbox p) (mapbox_api_key p) mapbox origin dest)
                   (3 / 4) of
              Inl e \<Rightarrow> Inl e
            | Inr v \<Rightarrow> Inr (Some v)))"
  unfolding aggregate_drive_minutes_def Let_def by (rule refl)

lemma aggregate_returns:
  "\<exists>r. aggregate_drive_minutes google ors mapbox origin dest p = Inr r"
proof (cases "provider_vals (enable_google p) (google_api_key p) google origin dest
                @ provider_vals (enable_openrouteservice p) (ors_api_key p) ors origin dest
                @ provider_vals (enable_mapbox p) (mapbox_api_key p) mapbox origin dest = []")
  case True
  then show ?thesis by (simp only: aggregate_unfold simp_thms if_True) blast
next
  case False
  from quantile_returns [OF False three_quarters] obtain r where
    "quantile (provider_vals (enable_google p) (google_api_key p) google origin dest
                @ provider_vals (enable_openrouteservice p) (ors_api_key p) ors origin dest
                @ provider_vals (enable_mapbox p) (mapbox_api_key p) mapbox origin dest) (3 / 4)
       = Inr r" ..
  with False show ?thesis by (simp only: aggregate_unfold if_False sum.case) blast
qed

lemma disabled_vals: "provider_vals False key call origin dest = []"
  by (simp add: provider_vals_def)

lemma aggregate_all_disabled:
  assumes "\<not> enable_google p" "\<not> enable_openrouteservice p" "\<not> enable_mapbox p"
  shows "aggregate_drive_minutes google ors mapbox origin dest p = Inr None"
  using assms by (simp add: aggregate_unfold disabled_vals)

lemma ten_vals: "provider_vals True (c # cs) ten_minutes origin dest = [10]"
  by (simp add: provider_vals_def ten_minutes_def)

subsection \<open>Travel-time tiers\<close>

lemma network_tier_sd: "network_tier w origin dest = Inr rv \<Longrightarrow> 5 \<le> sd rv"
  by (auto simp add: network_tier_def Let_def split: sum.splits)

lemma straight_line_sd: "5 \<le> sd (straight_line_tier w origin dest)"
  by (simp add: straight_line_tier_def Let_def)

lemma routing_or_heuristic_sd: "5 \<le> sd (routing_or_heuristic w origin dest)"
  by (cases "network_tier w origin dest")
     (simp_all add: routing_or_heuristic_def straight_line_sd network_tier_sd)

lemma drive_returns:
  "\<exists>rv. estimate_drive_time_minutes w olon olat dlon dlat providers = Inr rv \<and> 5 \<le> sd rv"
proof (cases providers)
  case None
  then show ?thesis
    by (simp add: estimate_drive_time_minutes_def routing_or_heuristic_sd)
next
  case (Some p)
  from aggregate_returns obtain r where
    r: "aggregate_drive_minutes (google_drive_minutes w) (ors_drive_minutes w)
          (mapbox_drive_minutes w) (olat, olon) (dlat, dlon) p = Inr r" ..
  show ?thesis
  proof (cases r)
    case None
    with Some r show ?thesis
      by (simp add: estimate_drive_time_minutes_def routing_or_heuristic_sd)
  next
    case (Some agg)
    with \<open>providers = Some p\<close> r show ?thesis
      by (simp add: estimate_drive_time_minutes_def)
  qed
qed

lemma ride_returns:
  "\<exists>rv. estimate_ride_time_minutes w olon olat dlon dlat providers = Inr rv \<and> 5 \<le> sd rv"
proof -
  from drive_returns obtain rv where
    rv: "estimate_drive_time_minutes w olon olat dlon dlat providers = Inr rv" "5 \<le> sd rv"
    by blast
  then show ?thesis by (simp add: estimate_ride_time_minutes_def)
qed

subsection \<open>Shocks\<close>

lemma apply_shocks_length: "length (fst (apply_shocks s p m g)) = length s"
  by (simp add: apply_shocks_def rand_def Let_def)

lemma apply_shocks_nth:
  assumes "i < length s"
  shows "fst (apply_shocks s p m g) ! i =
           (if 0 < p \<and> 0 < m \<and> g i < p then s ! i + m else s ! i)"
  using assms by (auto simp add: apply_shocks_def rand_def Let_def)

lemma apply_shocks_pointwise:
  assumes "p1 \<le> p2" and "m1 \<le> m2"
  shows "list_all2 (\<le>) (fst (apply_shocks s p1 m1 g)) (fst (apply_shocks s p2 m2 g))"
proof (rule list_all2_all_nthI)
  show "length (fst (apply_shocks s p1 m1 g)) = length (fst (apply_shocks s p2 m2 g))"
    by (simp add: apply_shocks_length)
next
  fix i assume "i < length (fst (apply_shocks s p1 m1 g))"
  then have i: "i < length s" by (simp add: apply_shocks_length)
  show "fst (apply_shocks s p1 m1 g) ! i \<le> fst (apply_shocks s p2 m2 g) ! i"
    using assms by (auto simp add: apply_shocks_nth [OF i])
qed

lemma array_mean_mono:
  assumes "list_all2 (\<le>) xs ys"
  shows "array_mean xs \<le> array_mean ys"
proof -
  have len: "length xs = length ys" using assms by (rule list_all2_lengthD)
  have "sum_list xs \<le> sum_list ys"
    using len assms by (intro sum_list_mono2) (auto simp add: list_all2_conv_all_nth)
  then show ?thesis
    by (simp add: array_mean_def len divide_right_mono)
qed

subsection \<open>Misconnect probability\<close>

lemma pi_mis_clip:
  assumes one: "np_exp 0 = 1" and ge: "\<forall>x\<ge>0. 1 \<le> np_exp x"
  shows "pi_mis np_exp cfg Lk h
           = clip (1 - np_exp (- (Lk - hub_risk_get cfg h ''MCT'' 40) / 20)) 0 1"
proof -
  define m where "m = hub_risk_get cfg h ''MCT'' 40"
  define y where "y = - (Lk - m) / 20"
  have goal: "pi_mis np_exp cfg Lk h = clip (1 - np_exp y) 0 1"
  proof (cases "m \<le> Lk")
    case True
    then have eq: "max (Lk - m) 0 = Lk - m" by simp
    have sw: "max 0 (min 1 x) = min 1 (max 0 x)" for x :: real
      by (simp add: max_def min_def)
    have "pi_mis np_exp cfg Lk h = max 0 (min 1 (1 - np_exp y))"
      by (simp only: pi_mis_def Let_def m_def [symmetric] eq y_def)
    then show ?thesis by (simp only: clip_def sw)
  next
    case False
    then have eq: "max (Lk - m) 0 = 0" by simp
    have "pi_mis np_exp cfg Lk h = max 0 (min 1 (1 - np_exp (- 0 / 20)))"
      by (simp only: pi_mis_def Let_def m_def [symmetric] eq)
    then have code: "pi_mis np_exp cfg Lk h = 0" using one by simp
    from False have "0 \<le> y" by (simp add: y_def)
    with ge have "1 \<le> np_exp y" by blast
    then have "clip (1 - np_exp y) 0 1 = 0" by (simp add: clip_def max_def min_def)
    with code show ?thesis by simp
  qed
  then show ?thesis by (simp only: y_def m_def)
qed

lemma pi_mis_zero:
  assumes "np_exp 0 = 1" and "Lk \<le> hub_risk_get cfg h ''MCT'' 40"
  shows "pi_mis np_exp cfg Lk h = 0"
  using assms by (simp add: pi_mis_def Let_def max_def)

lemma reliability_terms_unfold:
  "reliability_terms np_exp cfg k Lk h =
     (1 - cancel_rate k) * (1 - pi_mis np_exp cfg Lk h)
       * np_exp (- betaD cfg * max (delay_pos_mean k) 0 - betaV cfg * max (delay_var k) 0)
       * np_exp (- betaW cfg * hub_risk_get cfg h ''WxRisk'' 0.2
                 - betaC cfg * hub_risk_get cfg h ''CapacityRisk'' 0.3)"
  by (simp add: reliability_terms_def Let_def)

section \<open>Results\<close>

text \<open>
  C1 (amended). Let \<open>np_exp\<close> return 1 at 0 and at least 1 at every non-negative
  argument, as \<open>np.exp\<close> does. Then the misconnect probability used inside
  \<open>reliability_terms\<close> equals \<open>clip(1 - exp(-(layover - MCT)/20), 0, 1)\<close>, where
  \<open>MCT\<close> is the hub's minimum connect time (40 by default); \<open>reliability_terms\<close> is
  the product the specification gives with that probability in it; and the probability
  is 0 whenever the layover is at or below \<open>MCT\<close>.
\<close>

theorem pi_mis_clip_formula:
  assumes one: "np_exp 0 = 1" and ge: "\<forall>x\<ge>0. 1 \<le> np_exp x"
  shows "pi_mis np_exp cfg Lk h
           = clip (1 - np_exp (- (Lk - hub_risk_get cfg h ''MCT'' 40) / 20)) 0 1
       \<and> reliability_terms np_exp cfg k Lk h =
           (1 - cancel_rate k)
             * (1 - clip (1 - np_exp (- (Lk - hub_risk_get cfg h ''MCT'' 40) / 20)) 0 1)
             * np_exp (- betaD cfg * max (delay_pos_mean k) 0
                       - betaV cfg * max (delay_var k) 0)
             * np_exp (- betaW cfg * hub_risk_get cfg h ''WxRisk'' 0.2
                       - betaC cfg * hub_risk_get cfg h ''CapacityRisk'' 0.3)
       \<and> (Lk \<le> hub_risk_get cfg h ''MCT'' 40 \<longrightarrow> pi_mis np_exp cfg Lk h = 0)"
proof (intro conjI impI)
  show c: "pi_mis np_exp cfg Lk h
             = clip (1 - np_exp (- (Lk - hub_risk_get cfg h ''MCT'' 40) / 20)) 0 1"
    using one ge by (rule pi_mis_clip)
  show "reliability_terms np_exp cfg k Lk h =
           (1 - cancel_rate k)
             * (1 - clip (1 - np_exp (- (Lk - hub_risk_get cfg h ''MCT'' 40) / 20)) 0 1)
             * np_exp (- betaD cfg * max (delay_pos_mean k) 0
                       - betaV cfg * max (delay_var k) 0)
             * np_exp (- betaW cfg * hub_risk_get cfg h ''WxRisk'' 0.2
                       - betaC cfg * hub_risk_get cfg h ''CapacityRisk'' 0.3)"
    by (simp only: reliability_terms_unfold c)
  show "pi_mis np_exp cfg Lk h = 0" if "Lk \<le> hub_risk_get cfg h ''MCT'' 40"
    using one that by (rule pi_mis_zero)
qed

text \<open>
  C1, at a concrete input: a 10-minute layover at a hub with the default 40-minute
  minimum connect time has misconnect probability 0. The only call of the exponential
  there is at 0, where \<open>np.exp\<close> and the real exponential both give exactly 1.
\<close>

theorem pi_mis_short_layover_witness:
  "exp 0 = (1::real)
 \<and> 10 \<le> hub_risk_get qsi_defaults ''ORD'' ''MCT'' 40
 \<and> pi_mis exp qsi_defaults 10 ''ORD'' = 0"
proof -
  have one: "exp 0 = (1::real)" by simp
  have ge: "\<forall>x\<ge>0. (1::real) \<le> exp x" by simp
  have short: "10 \<le> hub_risk_get qsi_defaults ''ORD'' ''MCT'' 40"
    by (simp add: hub_risk_get_def qsi_defaults_def)
  have "10 \<le> hub_risk_get qsi_defaults ''ORD'' ''MCT'' 40
          \<longrightarrow> pi_mis exp qsi_defaults 10 ''ORD'' = 0"
    by (rule conjunct2 [OF conjunct2
          [OF pi_mis_clip_formula [OF one ge, of qsi_defaults 10 "''ORD''"]]])
  with one short show ?thesis by simp
qed

text \<open>
  C1 as stated fails: with the layover 30 minutes below the minimum connect time the
  probability is 0, not 1.
\<close>

theorem pi_mis_short_layover_not_one:
  "hub_risk_get qsi_defaults ''ORD'' ''MCT'' 40 = 40
 \<and> pi_mis exp qsi_defaults 10 ''ORD'' = 0
 \<and> pi_mis exp qsi_defaults 10 ''ORD'' \<noteq> 1"
  by (simp add: pi_mis_def hub_risk_get_def qsi_defaults_def)

text \<open>
  C2 (amended). \<open>aggregate_drive_minutes\<close> collects, from each enabled provider with a
  non-empty key, the estimate it returns when that estimate is neither null nor zero (at
  most one value per provider). When nothing is collected it returns an absent value
  and raises nothing; otherwise it returns the 0.75-quantile of the collected values,
  and when these are all equal to \<open>c\<close> it returns exactly \<open>c\<close>.
\<close>

theorem aggregate_drive_minutes_usable:
  fixes google ors mapbox :: provider and p :: ProviderConfig and origin dest :: coord
  defines "vals \<equiv> provider_vals (enable_google p) (google_api_key p) google origin dest
                   @ provider_vals (enable_openrouteservice p) (ors_api_key p) ors origin dest
                   @ provider_vals (enable_mapbox p) (mapbox_api_key p) mapbox origin dest"
  shows "(provider_vals en key call origin dest = [v]
            \<longleftrightarrow> en \<and> key \<noteq> [] \<and> call origin dest key = Minutes v \<and> v \<noteq> 0)
       \<and> (provider_vals en key call origin dest = []
            \<or> (\<exists>x. provider_vals en key call origin dest = [x]))
       \<and> (vals = [] \<longrightarrow> aggregate_drive_minutes google ors mapbox origin dest p = Inr None)
       \<and> (vals \<noteq> [] \<longrightarrow>
            (\<exists>r. quantile vals (3 / 4) = Inr r
                 \<and> aggregate_drive_minutes google ors mapbox origin dest p = Inr (Some r)))
       \<and> (vals \<noteq> [] \<and> (\<forall>x \<in> set vals. x = c) \<longrightarrow>
            aggregate_drive_minutes google ors mapbox origin dest p = Inr (Some c))"
proof -
  have unfold: "aggregate_drive_minutes google ors mapbox origin dest p =
      (if vals = [] then Inr None
       else (case quantile vals (3 / 4) of Inl e \<Rightarrow> Inl e | Inr r \<Rightarrow> Inr (Some r)))"
    unfolding vals_def by (rule aggregate_unfold)
  have empty: "aggregate_drive_minutes google ors mapbox origin dest p = Inr None"
    if "vals = []"
    by (simp only: unfold that simp_thms if_True)
  have some: "\<exists>r. quantile vals (3 / 4) = Inr r
                \<and> aggregate_drive_minutes google ors mapbox origin dest p = Inr (Some r)"
    if ne: "vals \<noteq> []"
  proof -
    from quantile_returns [OF ne three_quarters]
    obtain r where r: "quantile vals (3 / 4) = Inr r" ..
    have "aggregate_drive_minutes google ors mapbox origin dest p = Inr (Some r)"
      by (simp only: unfold ne if_False r sum.case)
    with r show ?thesis by blast
  qed
  have const: "aggregate_drive_minutes google ors mapbox origin dest p = Inr (Some c)"
    if h: "vals \<noteq> [] \<and> (\<forall>x \<in> set vals. x = c)"
  proof -
    from h have ne: "vals \<noteq> []" and all: "\<forall>x \<in> set vals. x = c" by blast+
    have r: "quantile vals (3 / 4) = Inr c"
      by (rule quantile_constant [OF ne three_quarters all])
    show ?thesis by (simp only: unfold ne if_False r sum.case)
  qed
  show ?thesis
  proof (intro conjI impI)
    show "provider_vals en key call origin dest = [v]
            \<longleftrightarrow> en \<and> key \<noteq> [] \<and> call origin dest key = Minutes v \<and> v \<noteq> 0"
      by (rule provider_vals_single)
    show "provider_vals en key call origin dest = []
            \<or> (\<exists>x. provider_vals en key call origin dest = [x])"
      by (rule provider_vals_shape)
    show "aggregate_drive_minutes google ors mapbox origin dest p = Inr None" if "vals = []"
      using that by (rule empty)
    show "\<exists>r. quantile vals (3 / 4) = Inr r
            \<and> aggregate_drive_minutes google ors mapbox origin dest p = Inr (Some r)"
      if "vals \<noteq> []"
      using that by (rule some)
    show "aggregate_drive_minutes google ors mapbox origin dest p = Inr (Some c)"
      if "vals \<noteq> [] \<and> (\<forall>x \<in> set vals. x = c)"
      using that by (rule const)
  qed
qed

text \<open>C2, at a concrete input: three providers that each answer 10 minutes give 10.\<close>

theorem aggregate_three_tens:
  "aggregate_drive_minutes ten_minutes ten_minutes ten_minutes (0, 0) (1, 1) all_routing
     = Inr (Some 10)"
proof -
  have vals: "provider_vals (enable_google all_routing) (google_api_key all_routing)
                 ten_minutes (0, 0) (1, 1)
               @ provider_vals (enable_openrouteservice all_routing) (ors_api_key all_routing)
                   ten_minutes (0, 0) (1, 1)
               @ provider_vals (enable_mapbox all_routing) (mapbox_api_key all_routing)
                   ten_minutes (0, 0) (1, 1) = [10, 10, 10]"
    by (simp add: all_routing_def ten_vals)
  from aggregate_drive_minutes_usable
         [of True "''g''" ten_minutes "(0, 0)" "(1, 1)" 10 all_routing
             ten_minutes ten_minutes ten_minutes 10]
  show ?thesis unfolding vals by simp
qed

text \<open>
  C2 as stated fails: when the only enabled provider answers 0 minutes, a successful
  non-null estimate, the function returns an absent value, where collecting every
  non-null estimate gives the 0.75-quantile of \<open>[0]\<close>, that is 0.
\<close>

theorem aggregate_zero_dropped:
  "aggregate_drive_minutes zero_minutes zero_minutes zero_minutes (0, 0) (1, 1) google_only
     = Inr None
 \<and> spec_aggregate_drive_minutes zero_minutes zero_minutes zero_minutes (0, 0) (1, 1) google_only
     = Inr (Some 0)"
  by (simp add: aggregate_drive_minutes_def spec_aggregate_drive_minutes_def provider_vals_def
      spec_vals_def zero_minutes_def google_only_def quantile_def Let_def)

text \<open>
  C4 (amended). With the random draws fixed, the samples that \<open>apply_shocks\<close> returns
  are pointwise non-decreasing in the shock probability and in the shock minutes, and so
  is their mean. (\<open>risk_with_shocks\<close> itself, \<open>rho\<close> times the sum of the two legs'
  CVaR minus mean, is monotone in neither.)
\<close>

theorem apply_shocks_monotone:
  assumes "p1 \<le> p2" and "m1 \<le> m2"
  shows "list_all2 (\<le>) (fst (apply_shocks s p1 m1 g)) (fst (apply_shocks s p2 m2 g))
       \<and> array_mean (fst (apply_shocks s p1 m1 g)) \<le> array_mean (fst (apply_shocks s p2 m2 g))"
  using apply_shocks_pointwise [OF assms] array_mean_mono by blast

text \<open>
  C4, at a concrete input: samples \<open>[0, 10]\<close>, the probability raised from 0.05 to 0.2
  and the minutes from 5 to 10.
\<close>

theorem apply_shocks_monotone_witness:
  "list_all2 (\<le>) (fst (apply_shocks [0, 10] (1 / 20) 5 first_draw_low))
                  (fst (apply_shocks [0, 10] (1 / 5) 10 first_draw_low))
 \<and> array_mean (fst (apply_shocks [0, 10] (1 / 20) 5 first_draw_low))
      \<le> array_mean (fst (apply_shocks [0, 10] (1 / 5) 10 first_draw_low))"
proof -
  have "(1::real) / 20 \<le> 1 / 5" and "(5::real) \<le> 10" by simp_all
  then show ?thesis by (rule apply_shocks_monotone)
qed

text \<open>
  C4 as stated fails. Access samples \<open>[0, 10]\<close>, no process samples, \<open>alpha = 0.9\<close>,
  \<open>rho = 1\<close>, the first uniform draw 0.1 and the second 0.5. With 10 shock minutes,
  raising the shock probability from 0.05 to 0.2 lowers the risk from 5 to 0; with
  shock probability 0.2, raising the shock minutes from 5 to 10 lowers it from 2.5 to 0.
\<close>

theorem risk_with_shocks_not_monotone:
  "fst (risk_with_shocks (incident (1 / 20) 10) [0, 10] [] first_draw_low) = Inr 5
 \<and> fst (risk_with_shocks (incident (1 / 5) 10) [0, 10] [] first_draw_low) = Inr 0
 \<and> fst (risk_with_shocks (incident (1 / 5) 5) [0, 10] [] first_draw_low) = Inr (5 / 2)"
  by (simp add: risk_with_shocks_def incident_def shocks_get_def apply_shocks_def rand_def
      first_draw_low_def upt_rec Let_def cvar_minus_mean_def cvar_def quantile_def array_mean_def)

text \<open>
  C5 (amended). When the available seats are below the segment's seat threshold,
  \<open>price_availability\<close> does not gate the itinerary out: availability contributes the
  weight 0.3, and the result is \<open>0.3 * exp(-beta_P * eff)\<close>, where \<open>eff\<close> is the
  effective price. An effective price above the segment's reference price gets the same
  factor 0.3 on top of the exponential decay. Only with enough seats and a price at or
  below the reference is the result the decay \<open>exp(-beta_P * eff)\<close> alone.
\<close>

theorem price_availability_soft_penalty:
  fixes cfg :: QSIConfig and k :: Itinerary and s :: string and state :: "string \<rightharpoonup> real"
  defines "eff \<equiv> price_mean k * (case state ''price_multiplier'' of None \<Rightarrow> 1 | Some v \<Rightarrow> v)
                    + price_ancillary k - price_rebates k"
  shows "(seats_available k < segment_get cfg s seats_threshold 2 \<longrightarrow>
            price_availability np_exp cfg k s state
              = 0.3 * np_exp (- segment_get cfg s beta_P 0.01 * eff))
       \<and> (segment_get cfg s p_star 300 < eff \<longrightarrow>
            price_availability np_exp cfg k s state
              = 0.3 * np_exp (- segment_get cfg s beta_P 0.01 * eff))
       \<and> (eff \<le> segment_get cfg s p_star 300
            \<and> segment_get cfg s seats_threshold 2 \<le> seats_available k \<longrightarrow>
            price_availability np_exp cfg k s state
              = np_exp (- segment_get cfg s beta_P 0.01 * eff))"
  by (simp add: price_availability_def eff_def Let_def)

text \<open>C5, at a concrete input: no seat left, a fare of 100 under the reference 300.\<close>

theorem price_availability_sold_out_witness:
  "seats_available sold_out < segment_get qsi_defaults ''leisure'' seats_threshold 2
 \<and> price_availability exp qsi_defaults sold_out ''leisure'' Map.empty = 0.3 * exp (- 1)"
proof -
  have few: "seats_available sold_out < segment_get qsi_defaults ''leisure'' seats_threshold 2"
    by (simp add: segment_get_def qsi_defaults_def sold_out_def)
  have "seats_available sold_out < segment_get qsi_defaults ''leisure'' seats_threshold 2 \<longrightarrow>
          price_availability exp qsi_defaults sold_out ''leisure'' Map.empty
            = 0.3 * exp (- segment_get qsi_defaults ''leisure'' beta_P 0.01
                           * (price_mean sold_out
                                * (case Map.empty ''price_multiplier'' of
                                     None \<Rightarrow> 1 | Some v \<Rightarrow> v)
                              + price_ancillary sold_out - price_rebates sold_out))"
    by (rule conjunct1
          [OF price_availability_soft_penalty [of sold_out qsi_defaults "''leisure''" exp Map.empty]])
  with few show ?thesis by (simp add: segment_get_def qsi_defaults_def sold_out_def)
qed

text \<open>
  C5 as stated fails in both halves. With 0 seats against a threshold of 2 and a fare of
  100 the factor is \<open>0.3 * exp(-1)\<close>, which is not zero. With 5 seats and a fare of 400
  against the reference 300 the factor is \<open>0.3 * exp(-4)\<close>, which is not the decay
  \<open>exp(-4)\<close> alone.
\<close>

theorem price_availability_sold_out_not_zero:
  "seats_available sold_out < segment_get qsi_defaults ''leisure'' seats_threshold 2
 \<and> price_availability exp qsi_defaults sold_out ''leisure'' Map.empty = 0.3 * exp (- 1)
 \<and> price_availability exp qsi_defaults sold_out ''leisure'' Map.empty \<noteq> 0
 \<and> segment_get qsi_defaults ''leisure'' p_star 300 < price_mean pricey
 \<and> segment_get qsi_defaults ''leisure'' seats_threshold 2 \<le> seats_available pricey
 \<and> price_availability exp qsi_defaults pricey ''leisure'' Map.empty = 0.3 * exp (- 4)
 \<and> price_availability exp qsi_defaults pricey ''leisure'' Map.empty \<noteq> exp (- 4)"
  by (simp add: price_availability_def segment_get_def qsi_defaults_def sold_out_def
      pricey_def Let_def)

text \<open>
  C6. When no provider configuration is given or all three routing providers are
  disabled, and the network-routing tier raises, \<open>estimate_drive_time_minutes\<close> returns
  the straight-line heuristic: mean = geodesic miles / 35 * 60 and
  sd = max(5, 0.30 * mean).
\<close>

theorem drive_straight_line_fallback:
  assumes off: "providers = None
                \<or> (\<exists>p. providers = Some p \<and> \<not> enable_google p
                        \<and> \<not> enable_openrouteservice p \<and> \<not> enable_mapbox p)"
      and net: "network_tier w (olat, olon) (dlat, dlon) = Inl e"
  shows "estimate_drive_time_minutes w olon olat dlon dlat providers
           = Inr \<lparr>mean = geodesic_miles w (olat, olon) (dlat, dlon) / 35 * 60,
                  sd = max 5 (0.30 * (geodesic_miles w (olat, olon) (dlat, dlon) / 35 * 60))\<rparr>"
proof -
  have fb: "routing_or_heuristic w (olat, olon) (dlat, dlon)
              = \<lparr>mean = geodesic_miles w (olat, olon) (dlat, dlon) / 35 * 60,
                 sd = max 5 (0.30 * (geodesic_miles w (olat, olon) (dlat, dlon) / 35 * 60))\<rparr>"
    by (simp add: routing_or_heuristic_def net straight_line_tier_def Let_def)
  from off show ?thesis
  proof
    assume "providers = None"
    then show ?thesis by (simp add: estimate_drive_time_minutes_def fb)
  next
    assume "\<exists>p. providers = Some p \<and> \<not> enable_google p
                  \<and> \<not> enable_openrouteservice p \<and> \<not> enable_mapbox p"
    then obtain p where p: "providers = Some p" "\<not> enable_google p"
      "\<not> enable_openrouteservice p" "\<not> enable_mapbox p" by blast
    show ?thesis
      by (simp add: estimate_drive_time_minutes_def p(1) aggregate_all_disabled [OF p(2-4)] fb)
  qed
qed

text \<open>C6, at a concrete input: 35 miles give a mean of 60 minutes and an sd of 18.\<close>

theorem drive_straight_line_fallback_witness:
  "estimate_drive_time_minutes no_routing 0 0 1 1 None = Inr \<lparr>mean = 60, sd = 18\<rparr>"
proof -
  have off: "(None :: ProviderConfig option) = None
      \<or> (\<exists>p. None = Some p \<and> \<not> enable_google p
            \<and> \<not> enable_openrouteservice p \<and> \<not> enable_mapbox p)" by simp
  have net: "network_tier no_routing (0, 0) (1, 1) = Inl ValueError"
    by (simp add: network_tier_def no_routing_def)
  from drive_straight_line_fallback [OF off net]
  show ?thesis by (simp add: no_routing_def)
qed

text \<open>
  C7. The drive estimator (whichever tier answers) and the rideshare estimator always
  return a \<open>TravelRV\<close>, and every \<open>TravelRV\<close> of the drive, rideshare and rail
  estimators has \<open>sd >= 5\<close>.
\<close>

theorem travel_rv_sd_floor:
  "(\<exists>rv. estimate_drive_time_minutes w olon olat dlon dlat providers = Inr rv \<and> 5 \<le> sd rv)
 \<and> (\<exists>rv. estimate_ride_time_minutes w olon olat dlon dlat providers = Inr rv \<and> 5 \<le> sd rv)
 \<and> 5 \<le> sd (estimate_rail_time_minutes w olon olat dlon dlat)"
proof (intro conjI)
  show "\<exists>rv. estimate_drive_time_minutes w olon olat dlon dlat providers = Inr rv \<and> 5 \<le> sd rv"
    by (rule drive_returns)
  show "\<exists>rv. estimate_ride_time_minutes w olon olat dlon dlat providers = Inr rv \<and> 5 \<le> sd rv"
    by (rule ride_returns)
  show "5 \<le> sd (estimate_rail_time_minutes w olon olat dlon dlat)"
    by (simp add: estimate_rail_time_minutes_def Let_def)
qed

text \<open>
  The block of \<open>generalized_cost_delta\<close> that resolves the curb window, on its own:
  when the departure timestamp, or the \<open>tmin\<close> or \<open>tmax\<close> timestamp of the
  airport's curb window, does not parse, the block raises inside and its handler yields
  the default: relative departure time 0, \<open>tmin = 60\<close>, \<open>tmax = 120\<close>. What the
  per-origin computation does after the block is not part of this statement.
\<close>

lemma schedule_window_default_on_parse_failure:
  assumes "isoparse (t_depart_iso sch) = None
           \<or> (\<exists>win. curb_windows sch a = Some win
                 \<and> (isoparse (tmin win) = None \<or> isoparse (tmax win) = None))"
  shows "(\<exists>e. parse_schedule isoparse sch a = Inl e)
       \<and> schedule_window isoparse sch a = (0, 60, 120)"
proof -
  from assms have "\<exists>e. parse_schedule isoparse sch a = Inl e"
    by (auto simp add: parse_schedule_def split: option.splits sum.splits)
  then show ?thesis by (auto simp add: schedule_window_def)
qed

text \<open>The same at a concrete input, where no timestamp parses.\<close>

lemma schedule_window_default_witness:
  "schedule_window unparsable no_windows ''HVN'' = (0, 60, 120)"
proof -
  have "unparsable (t_depart_iso no_windows) = None
        \<or> (\<exists>win. curb_windows no_windows ''HVN'' = Some win
              \<and> (unparsable (tmin win) = None \<or> unparsable (tmax win) = None))"
    by (simp add: unparsable_def)
  from schedule_window_default_on_parse_failure [OF this]
  show ?thesis by (rule conjunct2)
qed

text \<open>
  C10. For every \<open>alpha\<close> (also one outside \<open>[0, 1]\<close>, where \<open>np.quantile\<close>
  would raise), \<open>cvar\<close> of the empty sample array returns 0.0 and raises nothing, and
  so does \<open>cvar_minus_mean\<close>.
\<close>

theorem cvar_empty_returns_zero:
  "cvar [] q = Inr 0 \<and> cvar_minus_mean [] q = Inr 0"
  by (simp add: cvar_def cvar_minus_mean_def)

end
